theory Spec2Isabelle
  imports Main "HOL-Library.AList"
begin

section \<open>JavaScript values, errors and the environment\<close>

text \<open>
  The development embeds the two classes of the package: \<open>PluginBase\<close> (the plugin
  contract with its enable cascade) and \<open>PluginHandler\<close> (the registry). Every
  \<open>async\<close> method is modelled by the function that maps the state before the call to
  the outcome and the state after the awaited call has settled; a rejected promise and a
  thrown exception are both the left summand of a result.

  Scope of the model:
  \<^item> the calls run one after the other, as the registry awaits each of them, and every
    awaited call (the implementer's \<open>init\<close> and \<open>destroy\<close>, the database calls)
    settles: it resolves or rejects;
  \<^item> thrown values are \<open>Error\<close> objects carrying a message (as the casts
    \<open>(err as Error).message\<close> of the source assume); stack traces and the log lines
    that print them are left out;
  \<^item> the registry object \<open>#plugins\<close> is an association list in key order; plugin
    names are ordinary property names (neither array-index-like strings, which
    JavaScript enumerates first, nor names of members of \<open>Object.prototype\<close>);
  \<^item> the pass-through settings \<open>iobrokerConfig\<close>, \<open>parentPackage\<close> and
    \<open>controllerVersion\<close> are left out, and the copies \<open>this.pluginScope\<close>,
    \<open>this.pluginNamespace\<close> that the constructor takes from the settings are read
    from \<open>settings\<close>, since nothing reassigns them.
\<close>

datatype jsval = Undefined | Null | JBool bool | JNum int | JStr string | JObj

text \<open>\<open>!!v\<close> of JavaScript.\<close>

fun truthy :: "jsval \<Rightarrow> bool" where
  "truthy Undefined = False"
| "truthy Null = False"
| "truthy (JBool b) = b"
| "truthy (JNum n) = (n \<noteq> 0)"
| "truthy (JStr s) = (s \<noteq> [])"
| "truthy JObj = True"

text \<open>\<open>typeof v === 'object'\<close>: true of \<open>null\<close> and of objects.\<close>

fun typeofObject :: "jsval \<Rightarrow> bool" where
  "typeofObject Null = True"
| "typeofObject JObj = True"
| "typeofObject _ = False"

datatype error = Error (message: string)

type_synonym 'a result = "error + 'a"

type_synonym cfg = "string \<rightharpoonup> jsval"

text \<open>\<open>ioBroker.State\<close> with the three properties the package writes.\<close>

record state =
  val :: jsval
  ack :: bool
  sfrom :: string

type_synonym obj = "(string \<times> jsval) list"

text \<open>
  The two database clients come from other packages. They are modelled as in-memory
  key/value stores; each call can be made to reject with a store-specific error.
\<close>

record statesClient =
  stateValues :: "string \<rightharpoonup> state"
  getStateFails :: "error option"
  setStateFails :: "error option"

record objectsClient =
  objectValues :: "string \<rightharpoonup> obj"
  extendObjectFails :: "error option"

definition getStateAsync :: "statesClient \<Rightarrow> string \<Rightarrow> state option result" where
  "getStateAsync c ident =
     (case getStateFails c of Some e \<Rightarrow> Inl e | None \<Rightarrow> Inr (stateValues c ident))"

definition setStateAsync :: "statesClient \<Rightarrow> string \<Rightarrow> state \<Rightarrow> statesClient result" where
  "setStateAsync c ident st =
     (case setStateFails c of
        Some e \<Rightarrow> Inl e
      | None \<Rightarrow> Inr (c\<lparr>stateValues := (stateValues c)(ident \<mapsto> st)\<rparr>))"

definition mergeObj :: "obj \<Rightarrow> obj \<Rightarrow> obj" where
  "mergeObj old partial = partial @ filter (\<lambda>kv. fst kv \<notin> fst ` set partial) old"

definition extendObjectAsync :: "objectsClient \<Rightarrow> string \<Rightarrow> obj \<Rightarrow> objectsClient result" where
  "extendObjectAsync c ident partial =
     (case extendObjectFails c of
        Some e \<Rightarrow> Inl e
      | None \<Rightarrow>
          Inr (c\<lparr>objectValues := (objectValues c)(ident \<mapsto>
                 mergeObj (case objectValues c ident of None \<Rightarrow> [] | Some old \<Rightarrow> old) partial)\<rparr>))"

datatype level = LSilly | LDebug | LInfo | LWarn | LError

text \<open>
  What the implementer's code and the loader are asked to do is recorded as a trace, so
  that "is never invoked" and "exactly once" can be stated.
\<close>

datatype event =
    Resolved string "string list"
  | Required string
  | Constructed string
  | InitCalled string
  | DestroyCalled string

record world =
  logged :: "(level \<times> string) list"
  trace :: "event list"
  objectsDbs :: "nat \<Rightarrow> objectsClient"
  statesDbs :: "nat \<Rightarrow> statesClient"

text \<open>\<open>NamespaceLogger\<close>: every line is prefixed with the logging namespace.\<close>

definition namespaceLog :: "level \<Rightarrow> string \<Rightarrow> string \<Rightarrow> world \<Rightarrow> world" where
  "namespaceLog lvl prefix msg w = w\<lparr>logged := logged w @ [(lvl, prefix @ '' '' @ msg)]\<rparr>"

definition record_event :: "event \<Rightarrow> world \<Rightarrow> world" where
  "record_event ev w = w\<lparr>trace := trace w @ [ev]\<rparr>"

section \<open>PluginBase\<close>

datatype scope = Adapter | Controller

record pluginSettings =
  pluginScope :: scope
  parentNamespace :: string
  pluginNamespace :: string
  pluginLogNamespace :: string
  adapterDir :: "string option"
  jsControllerDir :: "string option"

record instanceCommon =
  common_name :: string
  common_host :: "string option"

record ioPackageFile =
  common :: "instanceCommon option"

text \<open>The two methods a plugin overrides, by their outcome.\<close>

record implementation =
  init :: "cfg \<Rightarrow> unit result"
  destroy :: "bool result"

text \<open>The methods of \<open>PluginBase\<close> itself, for a subclass that overrides nothing.\<close>

definition PluginBase_defaults :: implementation where
  "PluginBase_defaults = \<lparr>init = (\<lambda>_. Inl (Error ''Not implemented'')), destroy = Inr True\<rparr>"

record pluginBase =
  settings :: pluginSettings
  objectsDb :: "nat option"
  statesDb :: "nat option"
  isActive :: bool
  parentIoPackage :: "ioPackageFile option"
  impl :: implementation

definition PluginBase_constructor :: "pluginSettings \<Rightarrow> implementation \<Rightarrow> pluginBase" where
  "PluginBase_constructor s i =
     \<lparr>settings = s, objectsDb = None, statesDb = None, isActive = False,
      parentIoPackage = None, impl = i\<rparr>"

definition pluginLog :: "level \<Rightarrow> pluginBase \<Rightarrow> string \<Rightarrow> world \<Rightarrow> world" where
  "pluginLog lvl p msg w = namespaceLog lvl (pluginLogNamespace (settings p)) msg w"

definition getState :: "pluginBase \<Rightarrow> world \<Rightarrow> string \<Rightarrow> state option result" where
  "getState p w ident =
     (case statesDb p of
        None \<Rightarrow> Inl (Error ''States Database not initialized.'')
      | Some r \<Rightarrow> getStateAsync (statesDbs w r) ident)"

definition setState :: "pluginBase \<Rightarrow> string \<Rightarrow> state \<Rightarrow> world \<Rightarrow> string result \<times> world" where
  "setState p ident st w =
     (case statesDb p of
        None \<Rightarrow> (Inl (Error ''States Database not initialized.''), w)
      | Some r \<Rightarrow>
          (case setStateAsync (statesDbs w r) ident st of
             Inl e \<Rightarrow> (Inl e, w)
           | Inr c \<Rightarrow> (Inr ident, w\<lparr>statesDbs := (statesDbs w)(r := c)\<rparr>)))"

definition extendObject :: "pluginBase \<Rightarrow> string \<Rightarrow> obj \<Rightarrow> world \<Rightarrow> string result \<times> world" where
  "extendObject p ident partial w =
     (case objectsDb p of
        None \<Rightarrow> (Inl (Error ''Objects Database not initialized.''), w)
      | Some r \<Rightarrow>
          (case extendObjectAsync (objectsDbs w r) ident partial of
             Inl e \<Rightarrow> (Inl e, w)
           | Inr c \<Rightarrow> (Inr ident, w\<lparr>objectsDbs := (objectsDbs w)(r := c)\<rparr>)))"

text \<open>\<open>setActive\<close> assigns the flag first and writes the state afterwards.\<close>

definition setActive :: "bool \<Rightarrow> pluginBase \<Rightarrow> world \<Rightarrow> unit result \<times> pluginBase \<times> world" where
  "setActive active p w =
     (let p' = p\<lparr>isActive := active\<rparr>;
          ns = pluginNamespace (settings p)
      in case setState p' (ns @ ''.enabled'')
                \<lparr>val = JBool active, ack = True, sfrom = ns\<rparr> w of
           (Inl e, w') \<Rightarrow> (Inl e, p', w')
         | (Inr _, w') \<Rightarrow> (Inr (), p', w'))"

text \<open>Whether a write through \<open>setState\<close> is accepted: a client is set and does not reject.\<close>

definition canPersist :: "pluginBase \<Rightarrow> world \<Rightarrow> bool" where
  "canPersist p w =
     (case statesDb p of None \<Rightarrow> False | Some r \<Rightarrow> setStateFails (statesDbs w r) = None)"

definition setDatabase :: "nat \<Rightarrow> nat \<Rightarrow> pluginBase \<Rightarrow> pluginBase" where
  "setDatabase objectsRef statesRef p = p\<lparr>objectsDb := Some objectsRef, statesDb := Some statesRef\<rparr>"

definition boolText :: "bool \<Rightarrow> string" where
  "boolText b = (if b then ''true'' else ''false'')"

text \<open>The \<open>catch\<close> block of \<open>#initialize\<close>: log, mark inactive, do not rethrow.\<close>

definition initialize_catch ::
  "error \<Rightarrow> cfg \<Rightarrow> pluginBase \<Rightarrow> world \<Rightarrow> unit result \<times> cfg \<times> pluginBase \<times> world" where
  "initialize_catch e pluginConfig p w =
     (let w1 = pluginLog LError p (''Failed to initialize plugin: '' @ message e) w
      in case setActive False p w1 of (r, p2, w2) \<Rightarrow> (r, pluginConfig, p2, w2))"

definition initialize ::
  "cfg \<Rightarrow> bool \<Rightarrow> pluginBase \<Rightarrow> world \<Rightarrow> unit result \<times> cfg \<times> pluginBase \<times> world" where
  "initialize pluginConfig activate p w =
     (if activate then
        (let w1 = pluginLog LDebug p (''Initialize Plugin (enabled='' @ boolText activate @ '')'') w;
             pluginConfig' = pluginConfig(''enabled'' \<mapsto> JBool activate);
             w2 = record_event (InitCalled (pluginNamespace (settings p))) w1
         in case init (impl p) pluginConfig' of
              Inl e \<Rightarrow> initialize_catch e pluginConfig' p w2
            | Inr _ \<Rightarrow>
                (case setActive True p w2 of
                   (Inl e, p3, w3) \<Rightarrow> initialize_catch e pluginConfig' p3 w3
                 | (Inr _, p3, w3) \<Rightarrow> (Inr (), pluginConfig', p3, w3)))
      else
        (let w1 = pluginLog LDebug p (''Do not initialize Plugin (enabled='' @ boolText activate @ '')'') w
         in case setActive False p w1 of (r, p2, w2) \<Rightarrow> (r, pluginConfig, p2, w2)))"

definition folderObject :: obj where
  "folderObject = [(''type'', JStr ''folder''), (''common.name'', JStr ''Plugin States''), (''native'', JObj)]"

definition enabledObject :: obj where
  "enabledObject =
     [(''type'', JStr ''state''), (''common.name'', JStr ''Plugin - enabled''),
      (''common.type'', JStr ''boolean''), (''common.read'', JBool True),
      (''common.write'', JBool True), (''common.role'', JStr ''value''), (''native'', JObj)]"

text \<open>\<open>try { s = await this.getState(id) } catch { }\<close>: a rejected read leaves \<open>s\<close> undefined.\<close>

definition tryGetState :: "pluginBase \<Rightarrow> world \<Rightarrow> string \<Rightarrow> state option" where
  "tryGetState p w ident = (case getState p w ident of Inl _ \<Rightarrow> None | Inr s \<Rightarrow> s)"

text \<open>
  The first \<open>try\<close> block of \<open>initPlugin\<close>: two \<open>extendObject\<close> calls and the read
  share one block, so a rejection of any of them leaves \<open>pluginEnabledState\<close>
  undefined.
\<close>

definition readEnabledState :: "pluginBase \<Rightarrow> world \<Rightarrow> state option \<times> world" where
  "readEnabledState p w =
     (let ns = pluginNamespace (settings p)
      in case extendObject p ns folderObject w of
           (Inl _, w1) \<Rightarrow> (None, w1)
         | (Inr _, w1) \<Rightarrow>
             (case extendObject p (ns @ ''.enabled'') enabledObject w1 of
                (Inl _, w2) \<Rightarrow> (None, w2)
              | (Inr _, w2) \<Rightarrow>
                  (tryGetState p w2 (ns @ ''.enabled''), w2)))"

text \<open>
  \<open>s && typeof s.val !== 'object' && s.val !== undefined\<close>: the value of a state that
  decides, if there is one.
\<close>

definition concreteVal :: "state option \<Rightarrow> jsval option" where
  "concreteVal s =
     (case s of
        None \<Rightarrow> None
      | Some st \<Rightarrow> if \<not> typeofObject (val st) \<and> val st \<noteq> Undefined then Some (val st) else None)"

text \<open>
  \<open>str.replace(new RegExp(`system\\.adapter\\.${name}\\.\\d+\\.`), replacement)\<close> for an
  adapter name without regular-expression metacharacters and a replacement without
  \<open>$\<close>: the leftmost place where the literal prefix, a maximal non-empty run of digits
  and a dot follow each other is replaced; without a match the string is unchanged.
\<close>

definition isDigit :: "char \<Rightarrow> bool" where
  "isDigit c = (c \<in> set ''0123456789'')"

definition matchAt :: "string \<Rightarrow> string \<Rightarrow> string option" where
  "matchAt lit s =
     (if take (length lit) s = lit then
        (let rest = drop (length lit) s;
             ds = takeWhile isDigit rest;
             after = dropWhile isDigit rest
         in if ds \<noteq> [] \<and> take 1 after = ''.'' then Some (drop 1 after) else None)
      else None)"

fun replaceFirst :: "string \<Rightarrow> string \<Rightarrow> string \<Rightarrow> string" where
  "replaceFirst lit repl [] = (case matchAt lit [] of Some rest \<Rightarrow> repl @ rest | None \<Rightarrow> [])"
| "replaceFirst lit repl (c # cs) =
     (case matchAt lit (c # cs) of
        Some rest \<Rightarrow> repl @ rest
      | None \<Rightarrow> c # replaceFirst lit repl cs)"

definition hostNamespace :: "string \<Rightarrow> string \<Rightarrow> string \<Rightarrow> string" where
  "hostNamespace ns adapterName host =
     replaceFirst (''system.adapter.'' @ adapterName @ ''.'') (''system.host.'' @ host @ ''.'') ns"

text \<open>\<open>parentConfig?.common?.host\<close> when truthy, with \<open>parentConfig.common.name\<close>.\<close>

definition parentHost :: "ioPackageFile option \<Rightarrow> (string \<times> string) option" where
  "parentHost parentConfig =
     (case parentConfig of
        None \<Rightarrow> None
      | Some pc \<Rightarrow>
          (case common pc of
             None \<Rightarrow> None
           | Some c \<Rightarrow>
               (case common_host c of
                  None \<Rightarrow> None
                | Some h \<Rightarrow> if h = [] then None else Some (common_name c, h))))"

text \<open>\<open>pluginConfig.enabled === undefined ? true : !!pluginConfig.enabled\<close>\<close>

definition configEnabled :: "cfg \<Rightarrow> bool" where
  "configEnabled pluginConfig =
     (case pluginConfig ''enabled'' of
        None \<Rightarrow> True
      | Some v \<Rightarrow> if v = Undefined then True else truthy v)"

definition withConfig ::
  "unit result \<times> cfg \<times> pluginBase \<times> world \<Rightarrow> unit result \<times> cfg option \<times> pluginBase \<times> world" where
  "withConfig x = (case x of (r, c, p, w) \<Rightarrow> (r, Some c, p, w))"

text \<open>
  \<open>PluginBase.initPlugin\<close>. The configuration object is shared with the registry entry,
  so the configuration after the call is part of the outcome.
\<close>

definition PluginBase_initPlugin ::
  "cfg option \<Rightarrow> ioPackageFile option \<Rightarrow> pluginBase \<Rightarrow> world
     \<Rightarrow> unit result \<times> cfg option \<times> pluginBase \<times> world" where
  "PluginBase_initPlugin pluginConfig parentConfig p w =
     (case pluginConfig of
        None \<Rightarrow> (Inl (Error ''No configuration for plugin''), None, p, w)
      | Some c \<Rightarrow>
          (let p1 = p\<lparr>parentIoPackage := parentConfig\<rparr>
           in case readEnabledState p1 w of
                (pluginEnabledState, w1) \<Rightarrow>
                  (case concreteVal pluginEnabledState of
                     Some v \<Rightarrow> withConfig (initialize c (truthy v) p1 w1)
                   | None \<Rightarrow>
                       (case (if pluginScope (settings p1) = Adapter then parentHost parentConfig
                              else None) of
                          Some (adapterName, host) \<Rightarrow>
                            (let hostNs = hostNamespace (pluginNamespace (settings p1)) adapterName host;
                                 hostState = tryGetState p1 w1 (hostNs @ ''.enabled'')
                             in case concreteVal hostState of
                                  Some v \<Rightarrow> withConfig (initialize c (truthy v) p1 w1)
                                | None \<Rightarrow> withConfig (initialize c (configEnabled c) p1 w1))
                        | None \<Rightarrow> withConfig (initialize c (configEnabled c) p1 w1)))))"

section \<open>PluginHandler\<close>

record pluginHandlerSettings =
  scope :: scope
  namespace :: string
  logNamespace :: string

text \<open>\<open>instance?: PluginBase | null\<close>: the property is missing, null or an instance.\<close>

datatype instanceSlot = Absent | IsNull | Live pluginBase

record pluginEntry =
  config :: "cfg option"
  inst :: instanceSlot

record pluginHandler =
  handlerSettings :: pluginHandlerSettings
  plugins :: "(string \<times> pluginEntry) list"

type_synonym sys = "pluginHandler \<times> world"

definition PluginHandler_constructor :: "pluginHandlerSettings \<Rightarrow> pluginHandler" where
  "PluginHandler_constructor s = \<lparr>handlerSettings = s, plugins = []\<rparr>"

text \<open>
  Node's module loader: \<open>require.resolve(request, {paths})\<close> and \<open>require(path)\<close>.
  A module exports the plugin class itself or an object whose \<open>default\<close> is the
  class; \<open>new\<close> on the class throws or yields the subclass's overrides.
\<close>

type_synonym ctor = "pluginSettings \<Rightarrow> implementation result"

datatype moduleExports = DirectExport ctor | DefaultExport ctor

record loader =
  require_resolve :: "string \<Rightarrow> string list \<Rightarrow> string result"
  require :: "string \<Rightarrow> moduleExports result"

fun exportedClass :: "moduleExports \<Rightarrow> ctor" where
  "exportedClass (DirectExport c) = c"
| "exportedClass (DefaultExport c) = c"

datatype resolveDirs = Dir string | Dirs "string list"

definition handlerLog :: "level \<Rightarrow> pluginHandler \<Rightarrow> string \<Rightarrow> world \<Rightarrow> world" where
  "handlerLog lvl h msg w = namespaceLog lvl (logNamespace (handlerSettings h)) msg w"

text \<open>\<open>this.#plugins[name]?.instance\<close> when truthy.\<close>

definition liveInstance :: "pluginHandler \<Rightarrow> string \<Rightarrow> pluginBase option" where
  "liveInstance h name =
     (case map_of (plugins h) name of
        None \<Rightarrow> None
      | Some e \<Rightarrow> (case inst e of Live p \<Rightarrow> Some p | _ \<Rightarrow> None))"

text \<open>\<open>this.#plugins[name] = e\<close>: a new key goes last, a known key keeps its place.\<close>

definition setEntry :: "string \<Rightarrow> pluginEntry \<Rightarrow> pluginHandler \<Rightarrow> pluginHandler" where
  "setEntry name e h = h\<lparr>plugins := AList.update name e (plugins h)\<rparr>"

text \<open>Assignment to, or \<open>delete\<close> of, \<open>this.#plugins[name].instance\<close>.\<close>

definition setInstance :: "string \<Rightarrow> instanceSlot \<Rightarrow> pluginHandler \<Rightarrow> pluginHandler" where
  "setInstance name s h =
     (case map_of (plugins h) name of
        None \<Rightarrow> h
      | Some e \<Rightarrow> setEntry name (e\<lparr>inst := s\<rparr>) h)"

text \<open>\<open>typeof resolveDirsOrDir === 'string' ? [resolveDirsOrDir] : resolveDirsOrDir\<close>\<close>

definition dirList :: "resolveDirs \<Rightarrow> string list" where
  "dirList resolveDirsOrDir = (case resolveDirsOrDir of Dir d \<Rightarrow> [d] | Dirs ds \<Rightarrow> ds)"

text \<open>The object literal \<open>pluginSettings\<close> of \<open>instantiatePlugin\<close>.\<close>

definition pluginSettingsFor :: "pluginHandler \<Rightarrow> string \<Rightarrow> string list \<Rightarrow> pluginSettings" where
  "pluginSettingsFor h name dirs =
     \<lparr>pluginScope = scope (handlerSettings h),
      parentNamespace = namespace (handlerSettings h),
      pluginNamespace = namespace (handlerSettings h) @ ''.plugins.'' @ name,
      pluginLogNamespace = logNamespace (handlerSettings h) @ '' Plugin '' @ name,
      adapterDir = (if length dirs > 1 then Some (dirs ! 0) else None),
      jsControllerDir =
        (if length dirs > 1 then Some (dirs ! 1)
         else (case dirs of [] \<Rightarrow> None | d # _ \<Rightarrow> Some d))\<rparr>"

definition instantiatePlugin ::
  "loader \<Rightarrow> string \<Rightarrow> cfg option \<Rightarrow> resolveDirs \<Rightarrow> sys \<Rightarrow> sys" where
  "instantiatePlugin L name cfgo resolveDirsOrDir \<sigma> =
     (case \<sigma> of (h, w) \<Rightarrow>
       (case liveInstance h name of
          Some _ \<Rightarrow> (h, handlerLog LInfo h (''Ignore duplicate plugin '' @ name) w)
        | None \<Rightarrow>
            (let dirs = dirList resolveDirsOrDir;
                 request = ''@iobroker/plugin-'' @ name;
                 w1 = record_event (Resolved request dirs) w
             in case require_resolve L request dirs of
                  Inl _ \<Rightarrow> (h, handlerLog LError h (''Plugin '' @ name @ '' could not be resolved'') w1)
                | Inr pluginPath \<Rightarrow>
                    if pluginPath = [] then
                      (h, handlerLog LError h (''Plugin '' @ name @ '' could not be resolved'') w1)
                    else
                      (let w2 = record_event (Required pluginPath) w1
                       in case require L pluginPath of
                            Inl e \<Rightarrow>
                              (h, handlerLog LError h
                                    (''Plugin '' @ name @ '' could not be required: '' @ message e) w2)
                          | Inr m \<Rightarrow>
                              (let ResolvedPlugin = exportedClass m;
                                   ps = pluginSettingsFor h name dirs;
                                   h1 = setEntry name \<lparr>config = cfgo, inst = Absent\<rparr> h;
                                   w3 = record_event (Constructed (pluginNamespace ps)) w2
                               in case ResolvedPlugin ps of
                                    Inr i \<Rightarrow>
                                      (setInstance name (Live (PluginBase_constructor ps i)) h1, w3)
                                  | Inl e \<Rightarrow>
                                      (setInstance name IsNull h1,
                                       handlerLog LError h
                                         (''Plugin '' @ name @ '' could not be initialized: '' @ message e) w3))))))"

text \<open>
  \<open>addPlugins\<close>: \<open>configs\<close> is null or an object; its keys are visited in order and
  each value is looked up under its key.
\<close>

definition addPlugins ::
  "loader \<Rightarrow> (string \<times> cfg option) list option \<Rightarrow> resolveDirs \<Rightarrow> sys \<Rightarrow> sys" where
  "addPlugins L configs dirs \<sigma> =
     (case configs of
        None \<Rightarrow> \<sigma>
      | Some cs \<Rightarrow>
          fold (\<lambda>plugin \<sigma>'.
                  instantiatePlugin L plugin
                    (case map_of cs plugin of None \<Rightarrow> None | Some c \<Rightarrow> c) dirs \<sigma>')
               (map fst cs) \<sigma>)"

definition setDatabaseForPlugin :: "string \<Rightarrow> nat \<Rightarrow> nat \<Rightarrow> pluginHandler \<Rightarrow> pluginHandler" where
  "setDatabaseForPlugin name objectsRef statesRef h =
     (case liveInstance h name of
        None \<Rightarrow> h
      | Some p \<Rightarrow> setInstance name (Live (setDatabase objectsRef statesRef p)) h)"

definition setDatabaseForPlugins :: "nat \<Rightarrow> nat \<Rightarrow> pluginHandler \<Rightarrow> pluginHandler" where
  "setDatabaseForPlugins objectsRef statesRef h =
     fold (\<lambda>plugin h'. setDatabaseForPlugin plugin objectsRef statesRef h') (map fst (plugins h)) h"

text \<open>
  \<open>PluginHandler.initPlugin\<close>. The plugin mutates itself and the shared configuration
  object; both are written back to the entry. The \<open>catch\<close> block runs the plugin's
  \<open>destroy\<close>, ignores its outcome but for a log line, and deletes the instance.
\<close>

definition PluginHandler_initPlugin ::
  "string \<Rightarrow> ioPackageFile option \<Rightarrow> sys \<Rightarrow> unit result \<times> sys" where
  "PluginHandler_initPlugin name parentConfig \<sigma> =
     (case \<sigma> of (h, w) \<Rightarrow>
       (case map_of (plugins h) name of
          None \<Rightarrow> (Inl (Error ''Please instantiate plugin first!''), \<sigma>)
        | Some e \<Rightarrow>
            (case inst e of
               Live p \<Rightarrow>
                 (case PluginBase_initPlugin (config e) parentConfig p w of
                    (Inr _, c', p', w') \<Rightarrow>
                      (Inr (), (setEntry name \<lparr>config = c', inst = Live p'\<rparr> h, w'))
                  | (Inl err, c', p', w') \<Rightarrow>
                      (let w1 = handlerLog LWarn h
                                  (''Plugin '' @ name @ '' destroyed because not initialized correctly: ''
                                     @ message err) w';
                           w2 = record_event (DestroyCalled (pluginNamespace (settings p'))) w1;
                           w3 = (case destroy (impl p') of
                                   Inl err2 \<Rightarrow>
                                     handlerLog LWarn h
                                       (''Cannot destroy plugin '' @ name @ '': '' @ message err2) w2
                                 | Inr _ \<Rightarrow> w2)
                       in (Inr (), (setEntry name \<lparr>config = c', inst = Absent\<rparr> h, w3))))
             | _ \<Rightarrow> (Inl (Error ''Please instantiate plugin first!''), \<sigma>))))"

definition pluginExists :: "string \<Rightarrow> pluginHandler \<Rightarrow> bool" where
  "pluginExists name h = (map_of (plugins h) name \<noteq> None)"

definition isPluginInstantiated :: "string \<Rightarrow> pluginHandler \<Rightarrow> bool" where
  "isPluginInstantiated name h = (liveInstance h name \<noteq> None)"

definition isPluginActive :: "string \<Rightarrow> pluginHandler \<Rightarrow> bool" where
  "isPluginActive name h = (case liveInstance h name of None \<Rightarrow> False | Some p \<Rightarrow> isActive p)"

definition getPluginInstance :: "string \<Rightarrow> pluginHandler \<Rightarrow> pluginBase option" where
  "getPluginInstance name h = liveInstance h name"

definition getPluginConfig :: "string \<Rightarrow> pluginHandler \<Rightarrow> cfg option" where
  "getPluginConfig name h = (case map_of (plugins h) name of None \<Rightarrow> None | Some e \<Rightarrow> config e)"

text \<open>
  \<open>initPlugins\<close>: the entries are listed once; an entry without an instance is skipped;
  an error thrown by \<open>initPlugin\<close> would end the loop.
\<close>

fun initPlugins_loop :: "ioPackageFile option \<Rightarrow> string list \<Rightarrow> sys \<Rightarrow> unit result \<times> sys" where
  "initPlugins_loop parentConfig [] \<sigma> = (Inr (), \<sigma>)"
| "initPlugins_loop parentConfig (pluginName # rest) \<sigma> =
     (if \<not> isPluginInstantiated pluginName (fst \<sigma>) then initPlugins_loop parentConfig rest \<sigma>
      else (case PluginHandler_initPlugin pluginName parentConfig \<sigma> of
              (Inl e, \<sigma>') \<Rightarrow> (Inl e, \<sigma>')
            | (Inr _, \<sigma>') \<Rightarrow> initPlugins_loop parentConfig rest \<sigma>'))"

definition initPlugins :: "ioPackageFile option \<Rightarrow> sys \<Rightarrow> unit result \<times> sys" where
  "initPlugins parentConfig \<sigma> = initPlugins_loop parentConfig (map fst (plugins (fst \<sigma>))) \<sigma>"

text \<open>
  \<open>PluginHandler.destroy\<close>. The call \<open>setActive(false)\<close> of the unforced path stands
  outside the \<open>try\<close>, so its rejection leaves the method before the instance is
  deleted.
\<close>

definition PluginHandler_destroy :: "string \<Rightarrow> bool \<Rightarrow> sys \<Rightarrow> bool result \<times> sys" where
  "PluginHandler_destroy name force \<sigma> =
     (case \<sigma> of (h, w) \<Rightarrow>
       (case liveInstance h name of
          None \<Rightarrow> (Inr True, \<sigma>)
        | Some p \<Rightarrow>
            (let w1 = record_event (DestroyCalled (pluginNamespace (settings p))) w;
                 destroyed = (case destroy (impl p) of Inl _ \<Rightarrow> False | Inr b \<Rightarrow> b);
                 w2 = (case destroy (impl p) of
                         Inl e \<Rightarrow>
                           handlerLog LWarn h
                             (''Plugin '' @ name @ '' could not be destroyed: '' @ message e) w1
                       | Inr _ \<Rightarrow> w1)
             in if destroyed \<or> force then
                  (let w3 = handlerLog LDebug h (''Plugin '' @ name @ '' destroyed'') w2
                   in if \<not> force then
                        (case setActive False p w3 of
                           (Inl e, p', w4) \<Rightarrow> (Inl e, (setInstance name (Live p') h, w4))
                         | (Inr _, p', w4) \<Rightarrow> (Inr True, (setInstance name Absent h, w4)))
                      else (Inr True, (setInstance name Absent h, w3)))
                else
                  (Inr False,
                   (h, handlerLog LWarn h (''Plugin '' @ name @ '' could not be destroyed'') w2)))))"

definition destroyAll_step :: "string \<Rightarrow> sys \<Rightarrow> sys" where
  "destroyAll_step pluginName \<sigma> =
     (case PluginHandler_destroy pluginName True \<sigma> of
        (Inl e, (h, w)) \<Rightarrow>
          (h, handlerLog LWarn h
                (''Plugin '' @ [CHR 0x22] @ pluginName @ [CHR 0x22] @ '' could not be destroyed: ''
                   @ message e) w)
      | (Inr _, \<sigma>') \<Rightarrow> \<sigma>')"

definition destroyAll :: "sys \<Rightarrow> sys" where
  "destroyAll \<sigma> = fold destroyAll_step (map fst (plugins (fst \<sigma>))) \<sigma>"

text \<open>The public operations that change the registry, as calls a host can make.\<close>

datatype call =
    AddPlugins "(string \<times> cfg option) list option" resolveDirs
  | InstantiatePlugin string "cfg option" resolveDirs
  | SetDatabaseForPlugin string nat nat
  | SetDatabaseForPlugins nat nat
  | InitPlugin string "ioPackageFile option"
  | InitPlugins "ioPackageFile option"
  | Destroy string bool
  | DestroyAll

fun exec :: "loader \<Rightarrow> call \<Rightarrow> sys \<Rightarrow> sys" where
  "exec L (AddPlugins configs dirs) \<sigma> = addPlugins L configs dirs \<sigma>"
| "exec L (InstantiatePlugin name c dirs) \<sigma> = instantiatePlugin L name c dirs \<sigma>"
| "exec L (SetDatabaseForPlugin name ro rs) \<sigma> = (setDatabaseForPlugin name ro rs (fst \<sigma>), snd \<sigma>)"
| "exec L (SetDatabaseForPlugins ro rs) \<sigma> = (setDatabaseForPlugins ro rs (fst \<sigma>), snd \<sigma>)"
| "exec L (InitPlugin name pc) \<sigma> = snd (PluginHandler_initPlugin name pc \<sigma>)"
| "exec L (InitPlugins pc) \<sigma> = snd (initPlugins pc \<sigma>)"
| "exec L (Destroy name force) \<sigma> = snd (PluginHandler_destroy name force \<sigma>)"
| "exec L DestroyAll \<sigma> = destroyAll \<sigma>"

definition run :: "loader \<Rightarrow> call list \<Rightarrow> sys \<Rightarrow> sys" where
  "run L calls \<sigma> = fold (exec L) calls \<sigma>"

section \<open>Notions used in the statements\<close>

text \<open>
  The decision of the enable cascade, read off \<open>PluginBase.initPlugin\<close>: the three
  places where it calls \<open>#initialize\<close> pass this value (lemma
  \<open>PluginBase_initPlugin_cascade\<close> below).
\<close>

definition cascade :: "cfg \<Rightarrow> ioPackageFile option \<Rightarrow> pluginBase \<Rightarrow> world \<Rightarrow> bool" where
  "cascade c parentConfig p w =
     (case concreteVal (fst (readEnabledState p w)) of
        Some v \<Rightarrow> truthy v
      | None \<Rightarrow>
          (case (if pluginScope (settings p) = Adapter then parentHost parentConfig else None) of
             Some (adapterName, host) \<Rightarrow>
               (case concreteVal
                       (tryGetState p w
                          (hostNamespace (pluginNamespace (settings p)) adapterName host @ ''.enabled'')) of
                  Some v \<Rightarrow> truthy v
                | None \<Rightarrow> configEnabled c)
           | None \<Rightarrow> configEnabled c))"

text \<open>The four components of what \<open>PluginBase.initPlugin\<close> leaves behind.\<close>

definition outcome :: "'r \<times> 'c \<times> pluginBase \<times> world \<Rightarrow> 'r" where "outcome x = fst x"

definition configAfter :: "'r \<times> 'c \<times> pluginBase \<times> world \<Rightarrow> 'c" where "configAfter x = fst (snd x)"

definition pluginAfter :: "'r \<times> 'c \<times> pluginBase \<times> world \<Rightarrow> pluginBase" where "pluginAfter x = fst (snd (snd x))"

definition worldAfter :: "'r \<times> 'c \<times> pluginBase \<times> world \<Rightarrow> world" where "worldAfter x = snd (snd (snd x))"

text \<open>The property names of \<open>#plugins\<close> in order, as \<open>Object.keys\<close> lists them.\<close>

definition keysOf :: "pluginHandler \<Rightarrow> string list" where
  "keysOf h = map fst (plugins h)"


text \<open>
  \<open>keeps h h'\<close>: every entry of \<open>h\<close> is still an entry of \<open>h'\<close>, the keys stay distinct
  and the settings are the same.
\<close>

definition keeps :: "pluginHandler \<Rightarrow> pluginHandler \<Rightarrow> bool" where
  "keeps h h' \<longleftrightarrow> set (keysOf h) \<subseteq> set (keysOf h') \<and> (distinct (keysOf h) \<longrightarrow> distinct (keysOf h'))
      \<and> handlerSettings h' = handlerSettings h"

text \<open>
  The characters with a meaning of their own in a JavaScript regular expression; the
  model of \<open>hostNamespace\<close> is the source's for adapter names without them.
\<close>

definition regexMeta :: "char list" where
  "regexMeta = [CHR 0x5C, CHR ''^'', CHR ''$'', CHR ''.'', CHR ''|'', CHR ''?'', CHR ''*'', CHR ''+'',
                CHR ''('', CHR '')'', CHR ''['', CHR '']'', CHR ''{'', CHR ''}'']"

definition regexLiteral :: "string \<Rightarrow> bool" where
  "regexLiteral s = list_all (\<lambda>c. c \<notin> set regexMeta) s"

section \<open>Example installations\<close>

text \<open>
  An adapter instance \<open>demo.0\<close> on host \<open>h1\<close>, a fresh pair of databases, and loaders
  for a plugin \<open>sentry\<close> whose \<open>init\<close> succeeds or throws. \<open>registered i\<close> is the
  registry after \<open>instantiatePlugin\<close> and \<open>setDatabaseForPlugins\<close>; \<open>sentryPlugin i\<close>
  is the instance it holds.
\<close>

definition emptyConfig :: cfg where
  "emptyConfig = Map.empty"

definition enabledConfig :: cfg where
  "enabledConfig = [''enabled'' \<mapsto> JBool True]"

definition disabledConfig :: cfg where
  "disabledConfig = [''enabled'' \<mapsto> JBool False]"

definition exampleSettings :: pluginHandlerSettings where
  "exampleSettings =
     \<lparr>scope = Adapter, namespace = ''system.adapter.demo.0'', logNamespace = ''system.adapter.demo.0''\<rparr>"

definition freshWorld :: world where
  "freshWorld =
     \<lparr>logged = [], trace = [],
      objectsDbs = (\<lambda>_. \<lparr>objectValues = Map.empty, extendObjectFails = None\<rparr>),
      statesDbs = (\<lambda>_. \<lparr>stateValues = Map.empty, getStateFails = None, setStateFails = None\<rparr>)\<rparr>"

definition sentryLoader :: "implementation \<Rightarrow> loader" where
  "sentryLoader i =
     \<lparr>require_resolve = (\<lambda>request paths.
         if request = ''@iobroker/plugin-sentry'' then Inr ''/opt/iobroker/node_modules/@iobroker/plugin-sentry''
         else Inl (Error ''Cannot find module'')),
      require = (\<lambda>path. Inr (DefaultExport (\<lambda>_. Inr i)))\<rparr>"

definition failingInit :: implementation where
  "failingInit = \<lparr>init = (\<lambda>_. Inl (Error ''no DSN'')), destroy = Inr True\<rparr>"

definition workingPlugin :: implementation where
  "workingPlugin = \<lparr>init = (\<lambda>_. Inr ()), destroy = Inr True\<rparr>"

definition registered :: "implementation \<Rightarrow> sys" where
  "registered i =
     (let \<sigma> = instantiatePlugin (sentryLoader i) ''sentry'' (Some emptyConfig) (Dir ''/opt/iobroker'')
                (PluginHandler_constructor exampleSettings, freshWorld)
      in (setDatabaseForPlugins 0 0 (fst \<sigma>), snd \<sigma>))"

definition sentryPlugin :: "implementation \<Rightarrow> pluginBase" where
  "sentryPlugin i =
     setDatabase 0 0
       (PluginBase_constructor
          (pluginSettingsFor (PluginHandler_constructor exampleSettings) ''sentry'' [''/opt/iobroker'']) i)"

definition missingLoader :: loader where
  "missingLoader =
     \<lparr>require_resolve = (\<lambda>request paths. Inl (Error ''Cannot find module'')),
      require = (\<lambda>path. Inl (Error ''Cannot find module''))\<rparr>"

definition disabledState :: "string \<Rightarrow> state" where
  "disabledState ns = \<lparr>val = JBool False, ack = True, sfrom = ns\<rparr>"

text \<open>
  Three stores: the plugin's own flag is false; the same with an objects database that
  rejects every call; only the host's flag is false.
\<close>

definition disabledWorld :: world where
  "disabledWorld =
     freshWorld
       \<lparr>statesDbs := (\<lambda>_. \<lparr>stateValues =
                               [''system.adapter.demo.0.plugins.sentry.enabled'' \<mapsto>
                                  disabledState ''system.adapter.demo.0.plugins.sentry''],
                            getStateFails = None, setStateFails = None\<rparr>)\<rparr>"

definition objectsDownWorld :: world where
  "objectsDownWorld =
     freshWorld
       \<lparr>objectsDbs := (\<lambda>_. \<lparr>objectValues = Map.empty, extendObjectFails = Some (Error ''DB closed'')\<rparr>),
        statesDbs := (\<lambda>_. \<lparr>stateValues =
                               [''system.adapter.demo.0.plugins.sentry.enabled'' \<mapsto>
                                  disabledState ''system.adapter.demo.0.plugins.sentry''],
                            getStateFails = None, setStateFails = None\<rparr>)\<rparr>"

definition hostDisabledWorld :: world where
  "hostDisabledWorld =
     freshWorld
       \<lparr>statesDbs := (\<lambda>_. \<lparr>stateValues =
                               [''system.host.h1.plugins.sentry.enabled'' \<mapsto>
                                  disabledState ''system.host.h1.plugins.sentry''],
                            getStateFails = None, setStateFails = None\<rparr>)\<rparr>"

definition demoParent :: "ioPackageFile option" where
  "demoParent = Some \<lparr>common = Some \<lparr>common_name = ''demo'', common_host = Some ''h1''\<rparr>\<rparr>"



section \<open>Evaluation and projection lemmas\<close>

lemmas model_defs =
  getStateAsync_def setStateAsync_def mergeObj_def extendObjectAsync_def namespaceLog_def
  record_event_def PluginBase_constructor_def pluginLog_def getState_def setState_def
  extendObject_def setActive_def canPersist_def setDatabase_def boolText_def initialize_catch_def
  initialize_def folderObject_def enabledObject_def tryGetState_def readEnabledState_def
  concreteVal_def isDigit_def matchAt_def hostNamespace_def parentHost_def configEnabled_def
  withConfig_def PluginBase_initPlugin_def PluginHandler_constructor_def handlerLog_def
  liveInstance_def setEntry_def setInstance_def dirList_def pluginSettingsFor_def
  instantiatePlugin_def addPlugins_def setDatabaseForPlugin_def setDatabaseForPlugins_def
  PluginHandler_initPlugin_def pluginExists_def isPluginInstantiated_def isPluginActive_def
  getPluginInstance_def getPluginConfig_def initPlugins_def PluginHandler_destroy_def
  destroyAll_step_def destroyAll_def run_def Let_def

lemmas example_defs =
  emptyConfig_def enabledConfig_def disabledConfig_def
  exampleSettings_def freshWorld_def sentryLoader_def failingInit_def workingPlugin_def
  registered_def sentryPlugin_def missingLoader_def disabledState_def objectsDownWorld_def
  disabledWorld_def hostDisabledWorld_def demoParent_def regexMeta_def regexLiteral_def
  outcome_def configAfter_def pluginAfter_def worldAfter_def


lemma log_proj [simp]:
  "trace (namespaceLog lvl pre msg w) = trace w"
  "statesDbs (namespaceLog lvl pre msg w) = statesDbs w"
  "objectsDbs (namespaceLog lvl pre msg w) = objectsDbs w"
  "trace (pluginLog lvl p msg w) = trace w"
  "statesDbs (pluginLog lvl p msg w) = statesDbs w"
  "objectsDbs (pluginLog lvl p msg w) = objectsDbs w"
  "trace (handlerLog lvl h msg w) = trace w"
  "statesDbs (handlerLog lvl h msg w) = statesDbs w"
  "objectsDbs (handlerLog lvl h msg w) = objectsDbs w"
  by (simp_all add: namespaceLog_def pluginLog_def handlerLog_def)

lemma event_proj [simp]:
  "trace (record_event ev w) = trace w @ [ev]"
  "logged (record_event ev w) = logged w"
  "statesDbs (record_event ev w) = statesDbs w"
  "objectsDbs (record_event ev w) = objectsDbs w"
  by (simp_all add: record_event_def)

lemma canPersist_log [simp]:
  "canPersist p (pluginLog lvl q msg w) = canPersist p w"
  "canPersist p (record_event ev w) = canPersist p w"
  "canPersist (p\<lparr>isActive := b\<rparr>) w = canPersist p w"
  "canPersist (p\<lparr>parentIoPackage := pc\<rparr>) w = canPersist p w"
  by (simp_all add: canPersist_def pluginLog_def namespaceLog_def record_event_def
        split: option.splits)

section \<open>The plugin: activation and the cascade\<close>

lemma setActive_eq:
  "setActive b p w =
     (if canPersist p w then
        (Inr (), p\<lparr>isActive := b\<rparr>,
         w\<lparr>statesDbs := (statesDbs w)(the (statesDb p) :=
              (statesDbs w (the (statesDb p)))\<lparr>stateValues :=
                 (stateValues (statesDbs w (the (statesDb p))))
                   (pluginNamespace (settings p) @ ''.enabled'' \<mapsto>
                      \<lparr>val = JBool b, ack = True, sfrom = pluginNamespace (settings p)\<rparr>)\<rparr>)\<rparr>)
      else (Inl (case statesDb p of None \<Rightarrow> Error ''States Database not initialized.''
                 | Some r \<Rightarrow> the (setStateFails (statesDbs w r))), p\<lparr>isActive := b\<rparr>, w))"
  by (auto simp: setActive_def setState_def setStateAsync_def canPersist_def Let_def
           split: option.splits)

lemma initialize_cases:
  "\<exists>r w'. initialize c a p w =
            (r, (if a then c(''enabled'' \<mapsto> JBool True) else c),
             p\<lparr>isActive := (a \<and> \<not> isl (init (impl p) (c(''enabled'' \<mapsto> JBool True))) \<and> canPersist p w)\<rparr>,
             w')
     \<and> (isl r \<longleftrightarrow> \<not> canPersist p w)
     \<and> trace w' = trace w @ (if a then [InitCalled (pluginNamespace (settings p))] else [])
     \<and> objectsDbs w' = objectsDbs w
     \<and> (\<forall>rs. statesDb p = Some rs \<longrightarrow> setStateFails (statesDbs w rs) = None \<longrightarrow>
           stateValues (statesDbs w' rs) (pluginNamespace (settings p) @ ''.enabled'') =
             Some \<lparr>val = JBool (a \<and> \<not> isl (init (impl p) (c(''enabled'' \<mapsto> JBool True)))),
                   ack = True, sfrom = pluginNamespace (settings p)\<rparr>)"
proof (cases "canPersist p w")
  case True
  then show ?thesis
    by (cases a; cases "init (impl p) (c(''enabled'' \<mapsto> JBool True))")
       (simp_all add: initialize_def initialize_catch_def Let_def setActive_eq)
next
  case False
  then have "\<And>rs. statesDb p = Some rs \<Longrightarrow> setStateFails (statesDbs w rs) \<noteq> None"
    by (auto simp: canPersist_def)
  with False show ?thesis
    by (cases a; cases "init (impl p) (c(''enabled'' \<mapsto> JBool True))")
       (force simp add: initialize_def initialize_catch_def Let_def setActive_eq)+
qed

lemma extendObject_facts:
  "extendObject p i ob w = (r, w') \<Longrightarrow>
     trace w' = trace w \<and> logged w' = logged w \<and> statesDbs w' = statesDbs w"
  by (auto simp: extendObject_def split: option.splits sum.splits)

lemma tryGetState_cong:
  "statesDbs w1 = statesDbs w \<Longrightarrow> statesDb p1 = statesDb p \<Longrightarrow> tryGetState p1 w1 i = tryGetState p w i"
  by (simp add: tryGetState_def getState_def split: option.splits)

lemma canPersist_cong:
  "statesDbs w1 = statesDbs w \<Longrightarrow> statesDb p1 = statesDb p \<Longrightarrow> canPersist p1 w1 = canPersist p w"
  by (simp add: canPersist_def split: option.splits)

lemma parent_irrelevant [simp]:
  "extendObject (p\<lparr>parentIoPackage := pc\<rparr>) = extendObject p"
  "tryGetState (p\<lparr>parentIoPackage := pc\<rparr>) = tryGetState p"
  by (simp_all add: extendObject_def tryGetState_def getState_def fun_eq_iff)

lemma readEnabledState_facts:
  assumes "readEnabledState p w = (s, w1)"
  shows "trace w1 = trace w" and "logged w1 = logged w" and "statesDbs w1 = statesDbs w"
    and "s = None \<or> s = tryGetState p w (pluginNamespace (settings p) @ ''.enabled'')"
  using assms
  by (auto simp: readEnabledState_def Let_def split: prod.splits sum.splits
           dest!: extendObject_facts intro: tryGetState_cong)

lemma readEnabledState_parent [simp]:
  "readEnabledState (p\<lparr>parentIoPackage := pc\<rparr>) w = readEnabledState p w"
  by (simp add: readEnabledState_def Let_def cong: prod.case_cong sum.case_cong)

lemma readEnabledState_ok:
  assumes "objectsDb p = Some ro" and "extendObjectFails (objectsDbs w ro) = None"
  shows "fst (readEnabledState p w) = tryGetState p w (pluginNamespace (settings p) @ ''.enabled'')"
  using assms
  by (simp add: readEnabledState_def extendObject_def extendObjectAsync_def Let_def
                tryGetState_def getState_def split: option.splits)

lemma PluginBase_initPlugin_cascade:
  "PluginBase_initPlugin (Some c) pc p w =
     withConfig (initialize c (cascade c pc p w) (p\<lparr>parentIoPackage := pc\<rparr>) (snd (readEnabledState p w)))"
proof -
  obtain s w1 where rd: "readEnabledState p w = (s, w1)" by (cases "readEnabledState p w")
  have st: "statesDbs w1 = statesDbs w" using readEnabledState_facts(3)[OF rd] .
  have tg: "\<And>i. tryGetState p w1 i = tryGetState p w i"
    by (rule tryGetState_cong) (simp_all add: st)
  show ?thesis
    by (simp add: PluginBase_initPlugin_def cascade_def rd tg Let_def
             split: option.splits prod.splits)
qed

lemma initPlugin_shape:
  "\<exists>r w'. PluginBase_initPlugin (Some c) pc p w =
            (r, Some (if cascade c pc p w then c(''enabled'' \<mapsto> JBool True) else c),
             p\<lparr>parentIoPackage := pc,
               isActive := (cascade c pc p w \<and> \<not> isl (init (impl p) (c(''enabled'' \<mapsto> JBool True)))
                            \<and> canPersist p w)\<rparr>,
             w')
     \<and> (isl r \<longleftrightarrow> \<not> canPersist p w)
     \<and> trace w' = trace w @ (if cascade c pc p w then [InitCalled (pluginNamespace (settings p))] else [])
     \<and> (\<forall>rs. statesDb p = Some rs \<longrightarrow> setStateFails (statesDbs w rs) = None \<longrightarrow>
           stateValues (statesDbs w' rs) (pluginNamespace (settings p) @ ''.enabled'') =
             Some \<lparr>val = JBool (cascade c pc p w \<and> \<not> isl (init (impl p) (c(''enabled'' \<mapsto> JBool True)))),
                   ack = True, sfrom = pluginNamespace (settings p)\<rparr>)"
proof -
  obtain s w1 where rd: "readEnabledState p w = (s, w1)" by (cases "readEnabledState p w")
  have st: "statesDbs w1 = statesDbs w" and tr: "trace w1 = trace w"
    using readEnabledState_facts[OF rd] by simp_all
  let ?p1 = "p\<lparr>parentIoPackage := pc\<rparr>"
  have cp: "canPersist p w1 = canPersist p w" by (rule canPersist_cong) (simp_all add: st)
  from initialize_cases[of c "cascade c pc p w" ?p1 w1]
  show ?thesis
    by (auto simp: PluginBase_initPlugin_cascade rd withConfig_def cp st tr)
qed

lemma cascade_own:
  assumes "objectsDb p = Some ro" and "extendObjectFails (objectsDbs w ro) = None"
    and "concreteVal (tryGetState p w (pluginNamespace (settings p) @ ''.enabled'')) = Some v"
  shows "cascade c pc p w = truthy v"
  using assms(3) by (simp add: cascade_def readEnabledState_ok[OF assms(1,2)])

lemma concreteVal_read:
  assumes "concreteVal (tryGetState p w (pluginNamespace (settings p) @ ''.enabled'')) = None"
  shows "concreteVal (fst (readEnabledState p w)) = None"
proof -
  obtain s w1 where rd: "readEnabledState p w = (s, w1)" by (cases "readEnabledState p w")
  from readEnabledState_facts(4)[OF rd] assms show ?thesis
    by (auto simp: rd concreteVal_def)
qed

lemma takeWhile_digits:
  "list_all isDigit ds \<Longrightarrow> takeWhile isDigit (ds @ CHR ''.'' # rest) = ds"
  "list_all isDigit ds \<Longrightarrow> dropWhile isDigit (ds @ CHR ''.'' # rest) = CHR ''.'' # rest"
  by (induction ds) (simp_all add: isDigit_def)

lemma matchAt_prefix:
  "ds \<noteq> [] \<Longrightarrow> list_all isDigit ds \<Longrightarrow> matchAt lit (lit @ ds @ ''.'' @ rest) = Some rest"
  by (simp add: matchAt_def takeWhile_digits Let_def)

lemma replaceFirst_prefix:
  "ds \<noteq> [] \<Longrightarrow> list_all isDigit ds \<Longrightarrow> replaceFirst lit repl (lit @ ds @ ''.'' @ rest) = repl @ rest"
  using matchAt_prefix[of ds lit rest]
  by (cases "lit @ ds @ ''.'' @ rest") simp_all

lemma hostNamespace_adapter:
  "ds \<noteq> [] \<Longrightarrow> list_all isDigit ds \<Longrightarrow>
   hostNamespace (''system.adapter.'' @ adapterName @ ''.'' @ ds @ ''.'' @ rest) adapterName host =
     ''system.host.'' @ host @ ''.'' @ rest"
  using replaceFirst_prefix[of ds "''system.adapter.'' @ adapterName @ ''.''" "''system.host.'' @ host @ ''.''" rest]
  by (simp add: hostNamespace_def)

section \<open>The registry: entries and instances\<close>

lemma map_of_setEntry [simp]:
  "map_of (plugins (setEntry n e h)) = (map_of (plugins h))(n \<mapsto> e)"
  by (simp add: setEntry_def update_conv')

lemma keys_setEntry:
  "map fst (plugins (setEntry n e h)) =
     (if n \<in> set (map fst (plugins h)) then map fst (plugins h) else map fst (plugins h) @ [n])"
  by (simp add: setEntry_def update_keys)

lemma handlerSettings_setEntry [simp]: "handlerSettings (setEntry n e h) = handlerSettings h"
  by (simp add: setEntry_def)

lemma map_of_setInstance:
  "map_of (plugins (setInstance n s h)) =
     (case map_of (plugins h) n of
        None \<Rightarrow> map_of (plugins h)
      | Some e \<Rightarrow> (map_of (plugins h))(n \<mapsto> e\<lparr>inst := s\<rparr>))"
  by (simp add: setInstance_def split: option.splits)

lemma keys_setInstance [simp]: "map fst (plugins (setInstance n s h)) = map fst (plugins h)"
  by (auto simp: setInstance_def keys_setEntry map_of_eq_None_iff split: option.splits)

lemma handlerSettings_setInstance [simp]: "handlerSettings (setInstance n s h) = handlerSettings h"
  by (simp add: setInstance_def split: option.splits)

lemma liveInstance_setEntry:
  "liveInstance (setEntry n e h) m =
     (if m = n then (case inst e of Live p \<Rightarrow> Some p | _ \<Rightarrow> None) else liveInstance h m)"
  by (simp add: liveInstance_def)



lemma getPluginConfig_setInstance [simp]:
  "getPluginConfig m (setInstance n s h) = getPluginConfig m h"
  by (auto simp: getPluginConfig_def map_of_setInstance split: option.splits)










subsection \<open>No operation removes an entry\<close>

lemma keeps_refl [simp]: "keeps h h" by (simp add: keeps_def)

lemma keeps_trans: "keeps h h1 \<Longrightarrow> keeps h1 h2 \<Longrightarrow> keeps h h2"
  by (auto simp: keeps_def)

lemma keeps_setEntry [simp]: "keeps h (setEntry n e h)"
  by (auto simp: keeps_def keysOf_def keys_setEntry)

lemma keeps_setInstance [simp]: "keeps h (setInstance n s h)"
  by (auto simp: keeps_def keysOf_def)

lemma keeps_instantiatePlugin: "keeps h (fst (instantiatePlugin L name c dirs (h, w)))"
  by (auto simp: instantiatePlugin_def Let_def split: option.splits sum.splits
           intro: keeps_trans[OF keeps_setEntry keeps_setInstance])

lemma keeps_fold:
  assumes "\<And>x h w. keeps h (fst (f x (h, w)))"
  shows "keeps (fst \<sigma>) (fst (fold f xs \<sigma>))"
proof (induction xs arbitrary: \<sigma>)
  case Nil
  show ?case by simp
next
  case (Cons x xs)
  have "keeps (fst \<sigma>) (fst (f x \<sigma>))" using assms[of "fst \<sigma>" x "snd \<sigma>"] by simp
  with Cons.IH[of "f x \<sigma>"] show ?case by (auto intro: keeps_trans)
qed

lemma keeps_addPlugins: "keeps (fst \<sigma>) (fst (addPlugins L configs dirs \<sigma>))"
proof (cases configs)
  case None
  then show ?thesis by (simp add: addPlugins_def)
next
  case (Some cs)
  show ?thesis
    unfolding addPlugins_def Some option.case
    by (rule keeps_fold) (rule keeps_instantiatePlugin)
qed

lemma keeps_setDatabaseForPlugin: "keeps h (setDatabaseForPlugin n ro rs h)"
  by (simp add: setDatabaseForPlugin_def split: option.splits)

lemma keeps_setDatabaseForPlugins: "keeps h (setDatabaseForPlugins ro rs h)"
proof -
  have "keeps h0 (fold (\<lambda>plugin h'. setDatabaseForPlugin plugin ro rs h') ks h0)" for ks h0
    by (induction ks arbitrary: h0) (auto intro: keeps_trans[OF keeps_setDatabaseForPlugin])
  then show ?thesis by (simp add: setDatabaseForPlugins_def)
qed

lemma keeps_initPlugin: "keeps h (fst (snd (PluginHandler_initPlugin n pc (h, w))))"
  by (auto simp: PluginHandler_initPlugin_def Let_def
           split: option.splits instanceSlot.splits prod.splits sum.splits)

lemma keeps_initPlugins_loop: "keeps (fst \<sigma>) (fst (snd (initPlugins_loop pc ks \<sigma>)))"
proof (induction ks arbitrary: \<sigma>)
  case Nil
  show ?case by simp
next
  case (Cons k ks)
  obtain h w where s: "\<sigma> = (h, w)" by (cases \<sigma>)
  obtain r \<sigma>' where st: "PluginHandler_initPlugin k pc \<sigma> = (r, \<sigma>')"
    by (cases "PluginHandler_initPlugin k pc \<sigma>")
  have k1: "keeps (fst \<sigma>) (fst \<sigma>')" using keeps_initPlugin[of h k pc w] s st by simp
  show ?case
    using Cons.IH[of \<sigma>] Cons.IH[of \<sigma>'] k1 st
    by (auto split: sum.splits intro: keeps_trans)
qed

lemma keeps_destroy: "keeps h (fst (snd (PluginHandler_destroy n force (h, w))))"
  by (auto simp: PluginHandler_destroy_def Let_def split: option.splits prod.splits sum.splits)

lemma keeps_destroyAll_step: "keeps h (fst (destroyAll_step n (h, w)))"
  using keeps_destroy[of h n True w]
  by (auto simp: destroyAll_step_def split: prod.splits sum.splits)

lemma keeps_exec: "keeps (fst \<sigma>) (fst (exec L c \<sigma>))"
proof (cases \<sigma>)
  case (Pair h w)
  show ?thesis
  proof (cases c)
    case (AddPlugins configs dirs)
    then show ?thesis using keeps_addPlugins[of \<sigma>] by simp
  next
    case (InstantiatePlugin n cf dirs)
    then show ?thesis using keeps_instantiatePlugin[of h L n cf dirs w] Pair by simp
  next
    case (SetDatabaseForPlugin n ro rs)
    then show ?thesis by (simp add: keeps_setDatabaseForPlugin)
  next
    case (SetDatabaseForPlugins ro rs)
    then show ?thesis by (simp add: keeps_setDatabaseForPlugins)
  next
    case (InitPlugin n pc)
    then show ?thesis using keeps_initPlugin[of h n pc w] Pair by simp
  next
    case (InitPlugins pc)
    then show ?thesis using keeps_initPlugins_loop[of \<sigma>] by (simp add: initPlugins_def)
  next
    case (Destroy n force)
    then show ?thesis using keeps_destroy[of h n force w] Pair by simp
  next
    case DestroyAll
    have "keeps (fst \<sigma>) (fst (fold destroyAll_step ks \<sigma>))" for ks
      by (rule keeps_fold) (rule keeps_destroyAll_step)
    with DestroyAll show ?thesis by (simp add: destroyAll_def)
  qed
qed

lemma keeps_run: "keeps (fst \<sigma>) (fst (run L calls \<sigma>))"
  unfolding run_def
proof (induction calls arbitrary: \<sigma>)
  case Nil
  show ?case by simp
next
  case (Cons c cs)
  show ?case using Cons.IH[of "exec L c \<sigma>"] keeps_exec[of \<sigma> L c] by (auto intro: keeps_trans)
qed

text \<open>The keys of a registry built by calls on a new handler are distinct.\<close>

lemma run_distinct_keys:
  "distinct (keysOf (fst (run L calls (PluginHandler_constructor s, w))))"
  using keeps_run[of "(PluginHandler_constructor s, w)" L calls]
  by (simp add: keeps_def keysOf_def PluginHandler_constructor_def)

section \<open>The claims\<close>

subsection \<open>C1: a failing \<open>init\<close>\<close>

text \<open>
  Claim C1, as the code has it. Let \<open>name\<close> have an instance \<open>p\<close> and a configuration
  \<open>c\<close>, let the cascade decide to activate, and let the implementer's \<open>init\<close> fail.
  Then \<open>#initialize\<close> catches the failure, logs it and calls \<open>setActive(false)\<close>; it
  does not rethrow. So the registry's \<open>initPlugin\<close> returns normally, the plugin is
  not active, the entry and its configuration (now with \<open>enabled = true\<close> written
  into it) remain, \<open>init\<close> has been called once, and:
  \<^item> when the write of \<open>enabled = false\<close> is accepted, the state is persisted and the
    instance \<^emph>\<open>stays\<close> in the entry, no \<open>destroy\<close> being called;
  \<^item> only when that write is itself rejected does a failure reach the registry, whose
    \<open>catch\<close> block calls \<open>destroy\<close> and deletes the instance.
\<close>

theorem C1_init_failure_swallowed:
  assumes "map_of (plugins (fst \<sigma>)) name = Some e" and "inst e = Live p" and "config e = Some c"
    and "cascade c pc p (snd \<sigma>)"
    and "isl (init (impl p) (c(''enabled'' \<mapsto> JBool True)))"
  shows "fst (PluginHandler_initPlugin name pc \<sigma>) = Inr ()
     \<and> \<not> isPluginActive name (fst (snd (PluginHandler_initPlugin name pc \<sigma>)))
     \<and> (isPluginInstantiated name (fst (snd (PluginHandler_initPlugin name pc \<sigma>)))
          \<longleftrightarrow> canPersist p (snd \<sigma>))
     \<and> pluginExists name (fst (snd (PluginHandler_initPlugin name pc \<sigma>)))
     \<and> getPluginConfig name (fst (snd (PluginHandler_initPlugin name pc \<sigma>)))
          = Some (c(''enabled'' \<mapsto> JBool True))
     \<and> trace (snd (snd (PluginHandler_initPlugin name pc \<sigma>)))
          = trace (snd \<sigma>) @ InitCalled (pluginNamespace (settings p))
              # (if canPersist p (snd \<sigma>) then [] else [DestroyCalled (pluginNamespace (settings p))])
     \<and> (\<forall>rs. statesDb p = Some rs \<longrightarrow> setStateFails (statesDbs (snd \<sigma>) rs) = None \<longrightarrow>
           stateValues (statesDbs (snd (snd (PluginHandler_initPlugin name pc \<sigma>))) rs)
             (pluginNamespace (settings p) @ ''.enabled'')
           = Some \<lparr>val = JBool False, ack = True, sfrom = pluginNamespace (settings p)\<rparr>)"
proof -
  obtain h w where s: "\<sigma> = (h, w)" by (cases \<sigma>)
  from initPlugin_shape[of c pc p w] assms(4,5) s obtain r w' where
    eq: "PluginBase_initPlugin (Some c) pc p w =
           (r, Some (c(''enabled'' \<mapsto> JBool True)), p\<lparr>parentIoPackage := pc, isActive := False\<rparr>, w')"
    and rr: "isl r \<longleftrightarrow> \<not> canPersist p w"
    and tr: "trace w' = trace w @ [InitCalled (pluginNamespace (settings p))]"
    and pv: "\<forall>rs. statesDb p = Some rs \<longrightarrow> setStateFails (statesDbs w rs) = None \<longrightarrow>
           stateValues (statesDbs w' rs) (pluginNamespace (settings p) @ ''.enabled'') =
             Some \<lparr>val = JBool False, ack = True, sfrom = pluginNamespace (settings p)\<rparr>"
    by auto
  show ?thesis
  proof (cases r)
    case (Inl err)
    with rr have ncp: "\<not> canPersist p w" by simp
    then have nw: "\<And>rs. statesDb p = Some rs \<Longrightarrow> setStateFails (statesDbs w rs) \<noteq> None"
      by (auto simp: canPersist_def)
    show ?thesis
      using assms(1-3) s eq Inl ncp tr nw
      by (cases "destroy (impl p)")
         (auto simp: PluginHandler_initPlugin_def Let_def isPluginActive_def isPluginInstantiated_def
                 pluginExists_def getPluginConfig_def liveInstance_def)
  next
    case (Inr u)
    with rr have cp: "canPersist p w" by simp
    show ?thesis
      using assms(1-3) s eq Inr cp tr pv
      by (auto simp: PluginHandler_initPlugin_def Let_def isPluginActive_def isPluginInstantiated_def
                 pluginExists_def getPluginConfig_def liveInstance_def)
  qed
qed

text \<open>The theorem at the example registry, whose plugin's \<open>init\<close> throws.\<close>

theorem C1_init_failure_swallowed_witness:
  "fst (PluginHandler_initPlugin ''sentry'' None (registered failingInit)) = Inr ()
   \<and> isPluginInstantiated ''sentry'' (fst (snd (PluginHandler_initPlugin ''sentry'' None (registered failingInit))))
   \<and> \<not> isPluginActive ''sentry'' (fst (snd (PluginHandler_initPlugin ''sentry'' None (registered failingInit))))"
proof -
  have e: "map_of (plugins (fst (registered failingInit))) ''sentry''
             = Some \<lparr>config = Some emptyConfig, inst = Live (sentryPlugin failingInit)\<rparr>"
    by (simp add: model_defs example_defs)
  have d: "cascade emptyConfig None (sentryPlugin failingInit) (snd (registered failingInit))"
    by (simp add: cascade_def model_defs example_defs)
  have f: "isl (init (impl (sentryPlugin failingInit)) (emptyConfig(''enabled'' \<mapsto> JBool True)))"
    by (simp add: model_defs example_defs)
  have c: "canPersist (sentryPlugin failingInit) (snd (registered failingInit))"
    by (simp add: model_defs example_defs)
  from C1_init_failure_swallowed[where pc=None, OF e _ _ d f] c show ?thesis by simp
qed

text \<open>
  Claim C1 as stated fails there: \<open>init\<close> was invoked and threw, the databases accept
  every write, and afterwards \<open>isPluginInstantiated\<close> is still true.
\<close>

theorem C1_instance_survives_init_failure:
  "isPluginInstantiated ''sentry'' (fst (snd (PluginHandler_initPlugin ''sentry'' None (registered failingInit))))
   \<and> trace (snd (snd (PluginHandler_initPlugin ''sentry'' None (registered failingInit))))
       = trace (snd (registered failingInit)) @ [InitCalled ''system.adapter.demo.0.plugins.sentry'']
   \<and> init failingInit enabledConfig = Inl (Error ''no DSN'')"
  by (simp add: model_defs example_defs)

subsection \<open>C2: \<open>instantiatePlugin\<close> without a live instance\<close>




subsection \<open>C3: a persisted false\<close>

text \<open>
  Claim C3, as the code has it. If the two \<open>extendObject\<close> calls that precede the read
  are accepted (an objects database is set and does not reject) and the read of
  \<open><namespace>.enabled\<close> yields a state whose value is concrete and false, then
  \<open>initPlugin\<close> leaves \<open>isActive = false\<close>, the implementer's \<open>init\<close> is not invoked
  (the trace is unchanged) and the configuration is untouched, whatever the
  configuration's \<open>enabled\<close> key and the parent configuration are.
\<close>

theorem C3_persisted_false_decides:
  assumes "objectsDb p = Some ro" and "extendObjectFails (objectsDbs w ro) = None"
    and "concreteVal (tryGetState p w (pluginNamespace (settings p) @ ''.enabled'')) = Some v"
    and "\<not> truthy v"
  shows "isActive (pluginAfter (PluginBase_initPlugin (Some c) pc p w)) = False
     \<and> trace (worldAfter (PluginBase_initPlugin (Some c) pc p w)) = trace w
     \<and> configAfter (PluginBase_initPlugin (Some c) pc p w) = Some c"
proof -
  have "\<not> cascade c pc p w" using cascade_own[OF assms(1-3)] assms(4) by simp
  with initPlugin_shape[of c pc p w] show ?thesis
    by (auto simp: pluginAfter_def worldAfter_def configAfter_def)
qed

text \<open>The theorem at the example plugin, configured with \<open>enabled: true\<close>.\<close>

theorem C3_persisted_false_decides_witness:
  "isActive (pluginAfter (PluginBase_initPlugin (Some enabledConfig) None
                            (sentryPlugin workingPlugin) disabledWorld)) = False
   \<and> trace (worldAfter (PluginBase_initPlugin (Some enabledConfig) None
                            (sentryPlugin workingPlugin) disabledWorld)) = []"
proof -
  have a: "objectsDb (sentryPlugin workingPlugin) = Some 0" by (simp add: model_defs example_defs)
  have b: "extendObjectFails (objectsDbs disabledWorld 0) = None" by (simp add: example_defs)
  have c: "concreteVal (tryGetState (sentryPlugin workingPlugin) disabledWorld
             (pluginNamespace (settings (sentryPlugin workingPlugin)) @ ''.enabled'')) = Some (JBool False)"
    by (simp add: model_defs example_defs)
  have d: "\<not> truthy (JBool False)" by simp
  have t: "trace disabledWorld = []" by (simp add: example_defs)
  from C3_persisted_false_decides[OF a b c d, of "enabledConfig" None] t show ?thesis by simp
qed

text \<open>
  Claim C3 as stated fails when the objects database rejects \<open>extendObject\<close>: the read
  shares the \<open>try\<close> block and is skipped, so the persisted false (which a read would
  return) is not seen; with no \<open>enabled\<close> key the plugin is initialised and active.
\<close>

theorem C3_objects_rejection_hides_flag:
  "tryGetState (sentryPlugin workingPlugin) objectsDownWorld ''system.adapter.demo.0.plugins.sentry.enabled''
     = Some \<lparr>val = JBool False, ack = True, sfrom = ''system.adapter.demo.0.plugins.sentry''\<rparr>
   \<and> isActive (pluginAfter (PluginBase_initPlugin (Some emptyConfig) None
                              (sentryPlugin workingPlugin) objectsDownWorld)) = True
   \<and> trace (worldAfter (PluginBase_initPlugin (Some emptyConfig) None
                              (sentryPlugin workingPlugin) objectsDownWorld))
       = [InitCalled ''system.adapter.demo.0.plugins.sentry'']"
  by (simp add: model_defs example_defs)

subsection \<open>C4: the host's flag\<close>

text \<open>
  Claim C4. For an adapter-scoped plugin whose namespace is
  \<open>system.adapter.<name>.<instance>.<rest>\<close> (the instance number a non-empty run of
  digits), whose parent configuration names the adapter and a non-empty host, and
  whose own \<open>enabled\<close> state yields no concrete value: the state consulted next is
  \<open>system.host.<host>.<rest>.enabled\<close>, and if that yields a concrete false the plugin
  ends inactive and \<open>init\<close> is not invoked, for every configuration.
\<close>

theorem C4_host_flag_overrides_config:
  assumes "pluginScope (settings p) = Adapter"
    and "host \<noteq> []" and "regexLiteral adapterName" and "CHR ''$'' \<notin> set host"
    and "pluginNamespace (settings p) = ''system.adapter.'' @ adapterName @ ''.'' @ instanceNo @ ''.'' @ rest"
    and "instanceNo \<noteq> []" and "list_all isDigit instanceNo"
    and "concreteVal (tryGetState p w (pluginNamespace (settings p) @ ''.enabled'')) = None"
    and "concreteVal (tryGetState p w (''system.host.'' @ host @ ''.'' @ rest @ ''.enabled'')) = Some v"
    and "\<not> truthy v"
  shows "hostNamespace (pluginNamespace (settings p)) adapterName host = ''system.host.'' @ host @ ''.'' @ rest
     \<and> isActive (pluginAfter (PluginBase_initPlugin (Some c)
           (Some \<lparr>common = Some \<lparr>common_name = adapterName, common_host = Some host\<rparr>\<rparr>) p w)) = False
     \<and> trace (worldAfter (PluginBase_initPlugin (Some c)
           (Some \<lparr>common = Some \<lparr>common_name = adapterName, common_host = Some host\<rparr>\<rparr>) p w)) = trace w
     \<and> configAfter (PluginBase_initPlugin (Some c)
           (Some \<lparr>common = Some \<lparr>common_name = adapterName, common_host = Some host\<rparr>\<rparr>) p w) = Some c"
proof -
  let ?pc = "Some \<lparr>common = Some \<lparr>common_name = adapterName, common_host = Some host\<rparr>\<rparr>"
  have hn: "hostNamespace (pluginNamespace (settings p)) adapterName host = ''system.host.'' @ host @ ''.'' @ rest"
    unfolding assms(5) by (rule hostNamespace_adapter[OF assms(6,7)])
  have ph: "parentHost ?pc = Some (adapterName, host)" using assms(2) by (simp add: parentHost_def)
  have "\<not> cascade c ?pc p w"
    using assms(1,9,10) concreteVal_read[OF assms(8)] hn ph
    by (simp add: cascade_def)
  with initPlugin_shape[of c ?pc p w] hn show ?thesis
    by (auto simp: pluginAfter_def worldAfter_def configAfter_def)
qed

text \<open>The theorem at the example plugin, configured with \<open>enabled: true\<close>.\<close>

theorem C4_host_flag_overrides_config_witness:
  "hostNamespace ''system.adapter.demo.0.plugins.sentry'' ''demo'' ''h1'' = ''system.host.h1.plugins.sentry''
   \<and> isActive (pluginAfter (PluginBase_initPlugin (Some enabledConfig) demoParent
                            (sentryPlugin workingPlugin) hostDisabledWorld)) = False
   \<and> trace (worldAfter (PluginBase_initPlugin (Some enabledConfig) demoParent
                            (sentryPlugin workingPlugin) hostDisabledWorld)) = []"
proof -
  have a: "pluginScope (settings (sentryPlugin workingPlugin)) = Adapter"
    by (simp add: model_defs example_defs)
  have b: "''h1'' \<noteq> []" "regexLiteral ''demo''" "CHR ''$'' \<notin> set ''h1''"
    by (simp_all add: example_defs)
  have ns: "pluginNamespace (settings (sentryPlugin workingPlugin))
              = ''system.adapter.'' @ ''demo'' @ ''.'' @ ''0'' @ ''.'' @ ''plugins.sentry''"
    by (simp add: model_defs example_defs)
  have d: "''0'' \<noteq> []" "list_all isDigit ''0''" by (simp_all add: isDigit_def)
  have own: "concreteVal (tryGetState (sentryPlugin workingPlugin) hostDisabledWorld
               (pluginNamespace (settings (sentryPlugin workingPlugin)) @ ''.enabled'')) = None"
    by (simp add: model_defs example_defs)
  have hst: "concreteVal (tryGetState (sentryPlugin workingPlugin) hostDisabledWorld
               (''system.host.'' @ ''h1'' @ ''.'' @ ''plugins.sentry'' @ ''.enabled'')) = Some (JBool False)"
    by (simp add: model_defs example_defs)
  have f: "\<not> truthy (JBool False)" by simp
  have t: "trace hostDisabledWorld = []" by (simp add: example_defs)
  from C4_host_flag_overrides_config[OF a b ns d own hst f, of "enabledConfig"] t ns
  show ?thesis by (simp add: demoParent_def)
qed

subsection \<open>C5: the default\<close>




subsection \<open>C6: \<open>destroy\<close> with and without force\<close>



subsection \<open>C7: \<open>destroyAll\<close>\<close>



subsection \<open>C8: the one thrown error\<close>

text \<open>
  Claim C8. The registry's \<open>initPlugin\<close> fails exactly when the name has no instance,
  with the error "Please instantiate plugin first!"; for a name with an instance it
  returns normally, whatever the plugin did.
\<close>

theorem C8_initPlugin_throws_iff_not_instantiated: "fst (PluginHandler_initPlugin name pc (h, w)) =
     (if isPluginInstantiated name h then Inr () else Inl (Error ''Please instantiate plugin first!''))"
  by (auto simp: PluginHandler_initPlugin_def isPluginInstantiated_def liveInstance_def Let_def
           split: option.splits instanceSlot.splits prod.splits sum.splits)

text \<open>The theorem at a new registry and at one whose plugin's \<open>init\<close> throws.\<close>

theorem C8_initPlugin_throws_iff_not_instantiated_witness:
  "fst (PluginHandler_initPlugin ''sentry'' None (PluginHandler_constructor exampleSettings, freshWorld))
     = Inl (Error ''Please instantiate plugin first!'')
   \<and> fst (PluginHandler_initPlugin ''sentry'' None (registered failingInit)) = Inr ()"
proof -
  have a: "\<not> isPluginInstantiated ''sentry'' (PluginHandler_constructor exampleSettings)"
    by (simp add: model_defs)
  have b: "isPluginInstantiated ''sentry'' (fst (registered failingInit))"
    by (simp add: model_defs example_defs)
  from C8_initPlugin_throws_iff_not_instantiated[of "''sentry''" None "PluginHandler_constructor exampleSettings" freshWorld]
       C8_initPlugin_throws_iff_not_instantiated[of "''sentry''" None "fst (registered failingInit)" "snd (registered failingInit)"] a b
  show ?thesis by simp
qed

subsection \<open>C9: a duplicate \<open>instantiatePlugin\<close>\<close>

text \<open>
  Claim C9. With a live instance for the name, \<open>instantiatePlugin\<close> only logs
  "Ignore duplicate plugin": the registry (entry, configuration and instance) is the
  same, and nothing is added to the trace, so the loader is not asked to resolve,
  require or construct anything, whatever loader, configuration and directories are
  given.
\<close>

theorem C9_duplicate_instantiate_is_noop: "isPluginInstantiated name h \<Longrightarrow>
   instantiatePlugin L name c dirs (h, w) =
     (h, w\<lparr>logged := logged w @
            [(LInfo, logNamespace (handlerSettings h) @ '' '' @ ''Ignore duplicate plugin '' @ name)]\<rparr>)"
  by (auto simp: instantiatePlugin_def isPluginInstantiated_def handlerLog_def namespaceLog_def
           split: option.splits)

text \<open>The theorem at the example registry, called again with a loader that would fail.\<close>

theorem C9_duplicate_instantiate_is_noop_witness:
  "fst (instantiatePlugin missingLoader ''sentry'' (Some disabledConfig) (Dir ''/tmp'')
          (registered workingPlugin)) = fst (registered workingPlugin)
   \<and> trace (snd (instantiatePlugin missingLoader ''sentry'' (Some disabledConfig) (Dir ''/tmp'')
          (registered workingPlugin))) = trace (snd (registered workingPlugin))"
proof -
  have b: "isPluginInstantiated ''sentry'' (fst (registered workingPlugin))"
    by (simp add: model_defs example_defs)
  from C9_duplicate_instantiate_is_noop[OF b, of missingLoader "Some disabledConfig" "Dir ''/tmp''" "snd (registered workingPlugin)"]
  show ?thesis by simp
qed

subsection \<open>C10: the queries\<close>



end
